theory Spec2Isabelle
  imports Main "HOL-Library.Word"
begin

unbundle bit_operations_syntax

section \<open>Data model of the encoder\<close>

type_synonym byte = "8 word"

text \<open>
  The exceptions of \<^verbatim>\<open>Encoder_old.cc\<close> (each a thrown string literal) and the two ways
  the C++ code can stop abnormally, as values. The names are those of the specification's
  error taxonomy:
  \<^item> \<open>InvalidReset\<close>: "can only reset root encoder";
  \<^item> \<open>IncompleteCollection\<close>: "not all items were written";
  \<^item> \<open>CollectionFull\<close>: "no more space in collection";
  \<^item> \<open>KeyExpected\<close>: "need a key before this value";
  \<^item> \<open>PointerOutOfRange\<close>: "delta too large to write value";
  \<^item> \<open>ProtocolViolation\<close>: "need a value after a key" or "not a dictionary";
  \<^item> \<open>InvalidValue\<close>: "Can't write NaN";
  \<^item> \<open>AssertionFailed\<close>: a failed \<^verbatim>\<open>assert\<close>;
  \<^item> \<open>WriterFault\<close>: a store through a slot pointer that is null or outside the
    extent of the output.

  An operation that throws has the result \<open>Inl\<close> of the error; the state an exception
  leaves behind is not part of the result, since the specification (section 7) has the
  caller discard the document after any error.
\<close>

datatype violation = NeedValueAfterKey | NotADictionary

datatype error =
    InvalidReset
  | IncompleteCollection
  | CollectionFull
  | KeyExpected
  | PointerOutOfRange
  | ProtocolViolation violation
  | InvalidValue
  | AssertionFailed
  | WriterFault

text \<open>
  What every encoder of one document shares by reference: the output (\<^verbatim>\<open>_out\<close>) and the
  table of strings already written (\<^verbatim>\<open>_strings\<close>), from content to offset.
\<close>

record shared =
  out :: "byte list"
  strings :: "byte list \<rightharpoonup> nat"

text \<open>
  The fields of one \<^verbatim>\<open>encoder\<close> object. \<open>parent\<close> says whether \<^verbatim>\<open>_parent\<close> is set; the
  slot pointers \<^verbatim>\<open>_valPtr\<close> and \<^verbatim>\<open>_keyPtr\<close> are positions in the output, \<open>None\<close> for
  \<^verbatim>\<open>NULL\<close>.
\<close>

record encoder =
  parent :: bool
  valPtr :: "nat option"
  keyPtr :: "nat option"
  valOff :: nat
  keyOff :: nat
  count :: "32 word"
  width :: nat
  writingKey :: bool
  blockedOnKey :: bool

section \<open>Constants and helpers declared outside the source file\<close>

text \<open>
  Modelled from the spec: the enumeration \<^verbatim>\<open>internal::tags\<close>, declared in a header that is
  not part of the sources. The specification (section 6) names eight kinds of value whose
  tag is the top nibble of the first byte, and the pointer discriminator as the top bit of
  that byte, so \<^verbatim>\<open>kPointerTagFirst\<close> is 8 and every other tag is below it. The numbering
  of the eight kinds is the one of the Fleece format; the general theorems below use of a
  tag only that it is below \<open>kPointerTagFirst\<close>.
\<close>

definition kShortIntTag :: byte where "kShortIntTag = 0"
definition kIntTag :: byte where "kIntTag = 1"
definition kFloatTag :: byte where "kFloatTag = 2"
definition kSpecialTag :: byte where "kSpecialTag = 3"
definition kStringTag :: byte where "kStringTag = 4"
definition kBinaryTag :: byte where "kBinaryTag = 5"
definition kArrayTag :: byte where "kArrayTag = 6"
definition kDictTag :: byte where "kDictTag = 7"
definition kPointerTagFirst :: byte where "kPointerTagFirst = 8"

text \<open>
  Modelled from the spec: the enumeration \<^verbatim>\<open>valueType\<close> of the same header; the
  constructor of a child encoder only asks whether the type is \<^verbatim>\<open>kDict\<close>.
\<close>

datatype valueType = kNull | kBoolean | kNumber | kString | kData | kArray | kDict

text \<open>
  Modelled from the spec: the class \<^verbatim>\<open>Writer\<close> (the Output Sink of section 6), an
  append-only byte buffer. \<^verbatim>\<open>write\<close> appends and returns the position of the bytes,
  \<^verbatim>\<open>reserveSpace\<close> appends zero bytes, \<^verbatim>\<open>rewrite\<close> overwrites bytes that are already in
  the buffer; a \<^verbatim>\<open>rewrite\<close> that leaves the written extent has no meaning in the
  specification and is \<open>None\<close> here.
\<close>

definition Writer_write :: "byte list \<Rightarrow> byte list \<Rightarrow> nat \<times> byte list" where
  "Writer_write bs w = (length w, w @ bs)"

definition Writer_reserveSpace :: "nat \<Rightarrow> byte list \<Rightarrow> nat \<times> byte list" where
  "Writer_reserveSpace n w = (length w, w @ replicate n 0)"

definition Writer_rewrite :: "nat \<Rightarrow> byte list \<Rightarrow> byte list \<Rightarrow> byte list option" where
  "Writer_rewrite pos bs w =
     (if pos + length bs \<le> length w
      then Some (take pos w @ bs @ drop (pos + length bs) w)
      else None)"

text \<open>
  Modelled from the spec: \<^verbatim>\<open>PutUVarInt\<close> of \<^verbatim>\<open>varint.hh\<close>, the variable-length unsigned
  integer: seven bits a byte, least significant group first, the top bit set on every byte
  but the last.
\<close>

fun PutUVarInt :: "nat \<Rightarrow> byte list" where
  "PutUVarInt n =
     (if n < 0x80 then [of_nat n]
      else of_nat (n mod 0x80 + 0x80) # PutUVarInt (n div 0x80))"

declare PutUVarInt.simps [simp del]

text \<open>
  Modelled from the spec: \<^verbatim>\<open>PutIntOfLength\<close> of \<^verbatim>\<open>varint.hh\<close>, the little-endian two's
  complement payload of a general integer in the fewest bytes (one to eight) that keep its
  value, read as unsigned or as signed.
\<close>

definition fitsInBytes :: "64 word \<Rightarrow> bool \<Rightarrow> nat \<Rightarrow> bool" where
  "fitsInBytes i isUnsigned n =
     (if isUnsigned then uint i < 2 ^ (8 * n)
      else - (2 ^ (8 * n - 1)) \<le> sint i \<and> sint i < 2 ^ (8 * n - 1))"

definition PutIntOfLength :: "64 word \<Rightarrow> bool \<Rightarrow> byte list" where
  "PutIntOfLength i isUnsigned =
     (let n = (case filter (fitsInBytes i isUnsigned) [1, 2, 3, 4, 5, 6, 7] of
                 [] \<Rightarrow> 8 | k # _ \<Rightarrow> k)
      in map (\<lambda>k. ucast (drop_bit (8 * k) i)) [0 ..< n])"

text \<open>
  Modelled from the spec: the macros \<^verbatim>\<open>_enc16\<close> and \<^verbatim>\<open>_enc32\<close> of \<^verbatim>\<open>Endian.hh\<close>
  together with the store through an \<^verbatim>\<open>int16_t*\<close> or \<^verbatim>\<open>int32_t*\<close>: the bytes that end up
  in memory. The specification (section 4.3) has the delta "in slotWidth bytes as
  little-endian signed".
\<close>

definition enc16 :: "16 word \<Rightarrow> byte list" where
  "enc16 w = [ucast w, ucast (drop_bit 8 w)]"

definition enc32 :: "32 word \<Rightarrow> byte list" where
  "enc32 w = [ucast w, ucast (drop_bit 8 w), ucast (drop_bit 16 w), ucast (drop_bit 24 w)]"

section \<open>Constructing, resetting and ending\<close>

text \<open>
  The root constructor. \<^verbatim>\<open>_valOff\<close> and \<^verbatim>\<open>_keyOff\<close> are left uninitialised by the source;
  they are 0 here and never read on a root before an assertion stops the call.
\<close>

definition encoder_root :: encoder where
  "encoder_root =
     \<lparr> parent = False, valPtr = None, keyPtr = None, valOff = 0, keyOff = 0,
       count = 1, width = 0, writingKey = False, blockedOnKey = False \<rparr>"

definition shared_root :: "byte list \<Rightarrow> shared" where
  "shared_root w = \<lparr> out = w, strings = Map.empty \<rparr>"

definition reset :: "encoder \<Rightarrow> shared \<Rightarrow> error + (encoder \<times> shared)" where
  "reset e sh =
     (if parent e then Inl InvalidReset
      else Inr (e\<lparr>count := 1\<rparr>, sh\<lparr>out := [], strings := Map.empty\<rparr>))"

definition end_encoder :: "encoder \<Rightarrow> error + unit" where
  "end_encoder e = (if count e > 0 then Inl IncompleteCollection else Inr ())"

section \<open>Writing values\<close>

text \<open>
  C++ integer division truncates towards zero.
\<close>

definition cdiv2 :: "int \<Rightarrow> int" where
  "cdiv2 x = (if x < 0 then - ((- x) div 2) else x div 2)"

definition tagPointer :: "byte list \<Rightarrow> byte list" where
  "tagPointer bs = (case bs of [] \<Rightarrow> [] | b # rest \<Rightarrow> (b OR 0x80) # rest)"

text \<open>
  \<^verbatim>\<open>makePointer\<close>: \<open>Inr None\<close> is the result \<^verbatim>\<open>false\<close>, \<open>Inr (Some bs)\<close> the result
  \<^verbatim>\<open>true\<close> with the bytes stored through \<^verbatim>\<open>dstPtr\<close>.
\<close>

definition makePointer :: "nat \<Rightarrow> encoder \<Rightarrow> error + byte list option" where
  "makePointer toOffset e =
     (let fromPos = (if writingKey e then keyOff e else valOff e);
          delta = cdiv2 (int toOffset - int fromPos)
      in if width e = 2 then
           (if delta < - 0x4000 \<or> delta \<ge> 0x4000 then Inr None
            else Inr (Some (tagPointer (enc16 (word_of_int delta)))))
         else if width e \<noteq> 4 then Inl AssertionFailed
         else
           (if delta < - 0x40000000 \<or> delta \<ge> 0x40000000 then Inr None
            else Inr (Some (tagPointer (enc32 (word_of_int delta))))))"

text \<open>
  The first lines of \<^verbatim>\<open>writeValue\<close> after its two guards: the assertion on the high
  nibble of \<^verbatim>\<open>buf[0]\<close> and the tag or-ed into it. Every caller passes at least one byte.
\<close>

definition highNibbleClear :: "byte list \<Rightarrow> bool" where
  "highNibbleClear buf = (case buf of [] \<Rightarrow> True | b # _ \<Rightarrow> b AND 0xF0 = 0)"

definition addTag :: "byte \<Rightarrow> byte list \<Rightarrow> byte list" where
  "addTag tag buf = (case buf of [] \<Rightarrow> [] | b # rest \<Rightarrow> (b OR push_bit 4 tag) # rest)"

text \<open>
  The branch \<^verbatim>\<open>if (_parent)\<close> of \<^verbatim>\<open>writeValue\<close>: the value goes into the slot, or to the
  end of the output with a pointer in the slot; then the slot cursor advances.
\<close>

definition advanceSlot :: "encoder \<Rightarrow> encoder" where
  "advanceSlot e =
     (if writingKey e
      then e\<lparr>keyPtr := map_option (\<lambda>p. p + width e) (keyPtr e), keyOff := keyOff e + width e\<rparr>
      else e\<lparr>valPtr := map_option (\<lambda>p. p + width e) (valPtr e), valOff := valOff e + width e\<rparr>)"

definition slotPtr :: "encoder \<Rightarrow> nat option" where
  "slotPtr e = (if writingKey e then keyPtr e else valPtr e)"

definition placeInParent ::
  "byte list \<Rightarrow> bool \<Rightarrow> encoder \<Rightarrow> shared \<Rightarrow> error + (nat option \<times> encoder \<times> shared)" where
  "placeInParent buf canInline e sh =
     (case slotPtr e of
        None \<Rightarrow> Inl WriterFault
      | Some p \<Rightarrow>
          if length buf \<le> width e \<and> canInline then
            (case Writer_rewrite p buf (out sh) of
               None \<Rightarrow> Inl WriterFault
             | Some w1 \<Rightarrow>
                 if length buf < width e then
                   (case Writer_rewrite (p + length buf) (replicate (width e - length buf) 0) w1 of
                      None \<Rightarrow> Inl WriterFault
                    | Some w2 \<Rightarrow> Inr (Some p, advanceSlot e, sh\<lparr>out := w2\<rparr>))
                 else Inr (Some p, advanceSlot e, sh\<lparr>out := w1\<rparr>))
          else
            (let w1 = (if odd (length (out sh)) then snd (Writer_write [0] (out sh)) else out sh)
             in case makePointer (length w1) e of
                  Inl err \<Rightarrow> Inl err
                | Inr None \<Rightarrow> Inl PointerOutOfRange
                | Inr (Some ptr) \<Rightarrow>
                    (case Writer_rewrite p ptr w1 of
                       None \<Rightarrow> Inl WriterFault
                     | Some w2 \<Rightarrow>
                         Inr (Some (fst (Writer_write buf w2)), advanceSlot e,
                              sh\<lparr>out := snd (Writer_write buf w2)\<rparr>))))"

text \<open>The last lines of \<^verbatim>\<open>writeValue\<close>: a key clears \<^verbatim>\<open>_writingKey\<close>, a value counts down.\<close>

definition finishValue :: "encoder \<Rightarrow> encoder" where
  "finishValue e =
     (if writingKey e then e\<lparr>writingKey := False\<rparr>
      else
        (let e1 = e\<lparr>count := count e - 1\<rparr>
         in if keyPtr e1 \<noteq> None then e1\<lparr>blockedOnKey := True, writingKey := True\<rparr> else e1))"

definition writeValue ::
  "byte \<Rightarrow> byte list \<Rightarrow> bool \<Rightarrow> encoder \<Rightarrow> shared \<Rightarrow> error + (nat option \<times> encoder \<times> shared)" where
  "writeValue tag buf canInline e sh =
     (if count e = 0 then Inl CollectionFull
      else if blockedOnKey e then Inl KeyExpected
      else if tag < kPointerTagFirst \<and> \<not> highNibbleClear buf then Inl AssertionFailed
      else
        (let buf1 = (if tag < kPointerTagFirst then addTag tag buf else buf)
         in case (if parent e then placeInParent buf1 canInline e sh
                  else Inr (Some (fst (Writer_write buf1 (out sh))), e,
                            sh\<lparr>out := snd (Writer_write buf1 (out sh))\<rparr>)) of
              Inl err \<Rightarrow> Inl err
            | Inr (result, e1, sh1) \<Rightarrow> Inr (result, finishValue e1, sh1)))"

text \<open>
  \<^verbatim>\<open>writePointerTo\<close>: \<open>Inr None\<close> is the result \<^verbatim>\<open>false\<close>, with nothing changed. The
  pointer is written with the default \<^verbatim>\<open>canInline = true\<close>.
\<close>

definition writePointerTo :: "nat \<Rightarrow> encoder \<Rightarrow> shared \<Rightarrow> error + (encoder \<times> shared) option" where
  "writePointerTo dstOffset e sh =
     (case makePointer dstOffset e of
        Inl err \<Rightarrow> Inl err
      | Inr None \<Rightarrow> Inr None
      | Inr (Some buf) \<Rightarrow>
          (case writeValue kPointerTagFirst buf True e sh of
             Inl err \<Rightarrow> Inl err
           | Inr (_, e1, sh1) \<Rightarrow> Inr (Some (e1, sh1))))"

section \<open>Scalars\<close>

definition writeSpecial :: "byte \<Rightarrow> encoder \<Rightarrow> shared \<Rightarrow> error + (encoder \<times> shared)" where
  "writeSpecial special e sh =
     (if \<not> special \<le> 0x0F then Inl AssertionFailed
      else case writeValue kSpecialTag [special, 0] True e sh of
             Inl err \<Rightarrow> Inl err
           | Inr (_, e1, sh1) \<Rightarrow> Inr (e1, sh1))"

text \<open>
  \<^verbatim>\<open>writeInt(uint64_t i, bool isShort, bool isUnsigned)\<close>, and the two public entry points
  that choose \<^verbatim>\<open>isShort\<close>. A signed argument arrives as its 64-bit two's complement.
\<close>

definition writeInt3 ::
  "64 word \<Rightarrow> bool \<Rightarrow> bool \<Rightarrow> encoder \<Rightarrow> shared \<Rightarrow> error + (encoder \<times> shared)" where
  "writeInt3 i isShort isUnsigned e sh =
     (let buf =
        (if isShort then [ucast (drop_bit 8 i AND 0x0F), ucast (i AND 0xFF)]
         else
           (let payload = PutIntOfLength i isUnsigned;
                b0 = (of_nat (length payload) - 1 :: byte);
                b0' = (if isUnsigned then b0 OR 0x08 else b0);
                buf1 = b0' # payload
            in if odd (length buf1) then buf1 @ [0] else buf1))
      in case writeValue (if isShort then kShortIntTag else kIntTag) buf True e sh of
           Inl err \<Rightarrow> Inl err
         | Inr (_, e1, sh1) \<Rightarrow> Inr (e1, sh1))"

definition writeInt :: "64 word \<Rightarrow> encoder \<Rightarrow> shared \<Rightarrow> error + (encoder \<times> shared)" where
  "writeInt i e sh = writeInt3 i (- 2048 \<le> sint i \<and> sint i < 2048) False e sh"

definition writeUInt :: "64 word \<Rightarrow> encoder \<Rightarrow> shared \<Rightarrow> error + (encoder \<times> shared)" where
  "writeUInt i e sh = writeInt3 i (i < 2048) True e sh"

text \<open>
  \<^verbatim>\<open>writeDouble\<close> and \<^verbatim>\<open>writeFloat\<close> use five primitives of the C++ floating-point types,
  which are parameters here, for a type \<open>'f\<close> of floating-point values and a type
  \<open>'w\<close> of integers: \<^verbatim>\<open>isnan(n)\<close>; the conversion \<^verbatim>\<open>(int64_t)n\<close> or \<^verbatim>\<open>(int32_t)n\<close>; the
  conversion of that integer back to the floating-point type, which the comparison
  \<^verbatim>\<open>n == (int64_t)n\<close> applies to its right operand; the comparison \<^verbatim>\<open>==\<close> itself; and
  the bytes that \<^verbatim>\<open>memcpy\<close> takes from the \<^verbatim>\<open>littleEndianDouble\<close> or
  \<^verbatim>\<open>littleEndianFloat\<close> (eight or four of them).
\<close>

record ('f, 'w) floatPrims =
  isNaN :: "'f \<Rightarrow> bool"
  toInteger :: "'f \<Rightarrow> 'w"
  ofInteger :: "'w \<Rightarrow> 'f"
  equalF :: "'f \<Rightarrow> 'f \<Rightarrow> bool"
  littleEndian :: "'f \<Rightarrow> byte list"

definition writeDouble ::
  "('f, 64 word) floatPrims \<Rightarrow> 'f \<Rightarrow> encoder \<Rightarrow> shared \<Rightarrow> error + (encoder \<times> shared)" where
  "writeDouble P n e sh =
     (if isNaN P n then Inl InvalidValue
      else if equalF P n (ofInteger P (toInteger P n)) then writeInt (toInteger P n) e sh
      else
        (let buf = [0x08, 0] @ littleEndian P n
         in case writeValue kFloatTag buf True e sh of
              Inl err \<Rightarrow> Inl err
            | Inr (_, e1, sh1) \<Rightarrow> Inr (e1, sh1)))"

text \<open>
  In \<^verbatim>\<open>writeFloat\<close> the \<^verbatim>\<open>int32_t\<close> is passed to \<^verbatim>\<open>writeInt(int64_t)\<close>, sign-extended.
\<close>

definition writeFloat ::
  "('f, 32 word) floatPrims \<Rightarrow> 'f \<Rightarrow> encoder \<Rightarrow> shared \<Rightarrow> error + (encoder \<times> shared)" where
  "writeFloat P n e sh =
     (if isNaN P n then Inl InvalidValue
      else if equalF P n (ofInteger P (toInteger P n)) then writeInt (scast (toInteger P n)) e sh
      else
        (let buf = [0x00, 0] @ littleEndian P n
         in case writeValue kFloatTag buf True e sh of
              Inl err \<Rightarrow> Inl err
            | Inr (_, e1, sh1) \<Rightarrow> Inr (e1, sh1)))"

section \<open>Strings and data\<close>

text \<open>
  \<^verbatim>\<open>writeData(tags, slice)\<close>; the result carries the position of the copied bytes, the
  start of the slice the source returns.
\<close>

definition dataHeader :: "nat \<Rightarrow> byte list" where
  \<comment> \<open>what the second branch of \<^verbatim>\<open>writeData\<close> puts in \<^verbatim>\<open>buf\<close> for data of \<open>n\<close> bytes\<close>
  "dataHeader n =
     [of_nat (min n 0xF)] @ (if n \<ge> 0x0F then PutUVarInt n else [])
       @ (if n = 0 then [0] else [])"

definition writeData ::
  "byte \<Rightarrow> byte list \<Rightarrow> encoder \<Rightarrow> shared \<Rightarrow> error + (nat option \<times> encoder \<times> shared)" where
  "writeData tag s e sh =
     (let b0 = (of_nat (min (length s) 0xF) :: byte)
      in if length s < width e then
           (case writeValue tag (b0 # s) True e sh of
              Inl err \<Rightarrow> Inl err
            | Inr (ptr, e1, sh1) \<Rightarrow> Inr (map_option (\<lambda>p. p + 1) ptr, e1, sh1))
         else
           (let buf = dataHeader (length s)
            in case writeValue tag buf False e sh of
                 Inl err \<Rightarrow> Inl err
               | Inr (_, e1, sh1) \<Rightarrow>
                   Inr (Some (fst (Writer_write s (out sh1))), e1,
                        sh1\<lparr>out := snd (Writer_write s (out sh1))\<rparr>)))"

text \<open>
  \<^verbatim>\<open>writeString(slice)\<close>. The constant \<^verbatim>\<open>kMaxSharedStringSize\<close> is declared in a header
  that is not part of the sources, and is the first argument here. When the pointer to
  the cached offset cannot be made, the source stores the current length of the output in
  the table and returns.
\<close>

definition writeString ::
  "nat \<Rightarrow> byte list \<Rightarrow> encoder \<Rightarrow> shared \<Rightarrow> error + (encoder \<times> shared)" where
  "writeString kMaxSharedStringSize s e sh =
     (if length s \<ge> width e \<and> length s \<le> kMaxSharedStringSize then
        (case strings sh s of
           Some offset \<Rightarrow>
             (case writePointerTo offset e sh of
                Inl err \<Rightarrow> Inl err
              | Inr (Some st) \<Rightarrow> Inr st
              | Inr None \<Rightarrow> Inr (e, sh\<lparr>strings := (strings sh)(s \<mapsto> length (out sh))\<rparr>))
         | None \<Rightarrow>
             (let offset = length (out sh)
              in case writeData kStringTag s e sh of
                   Inl err \<Rightarrow> Inl err
                 | Inr (_, e1, sh1) \<Rightarrow> Inr (e1, sh1\<lparr>strings := (strings sh1)(s \<mapsto> offset)\<rparr>)))
      else
        (case writeData kStringTag s e sh of
           Inl err \<Rightarrow> Inl err
         | Inr (_, e1, sh1) \<Rightarrow> Inr (e1, sh1)))"

definition writeBinary :: "byte list \<Rightarrow> encoder \<Rightarrow> shared \<Rightarrow> error + (encoder \<times> shared)" where
  \<comment> \<open>\<^verbatim>\<open>writeData(slice)\<close>\<close>
  "writeBinary s e sh =
     (case writeData kBinaryTag s e sh of
        Inl err \<Rightarrow> Inl err
      | Inr (_, e1, sh1) \<Rightarrow> Inr (e1, sh1))"

section \<open>Arrays and dictionaries\<close>

text \<open>
  The header bytes that \<^verbatim>\<open>writeArrayOrDict\<close> builds in \<^verbatim>\<open>buf\<close> before it adds the tag.
\<close>

definition headerBuf :: "32 word \<Rightarrow> bool \<Rightarrow> byte list" where
  "headerBuf cnt wide =
     (let inlineCount = min cnt 0x07FF;
          b0 = (ucast (drop_bit 8 inlineCount) :: byte);
          b1 = (ucast (inlineCount AND 0xFF) :: byte);
          buf = [b0, b1];
          buf1 = (if cnt \<ge> 0x0FFF then
                    (let buf2 = buf @ PutUVarInt (unat cnt)
                     in if odd (length buf2) then buf2 @ [0] else buf2)
                  else buf)
      in case buf1 of [] \<Rightarrow> [] | c # rest \<Rightarrow> (if wide then c OR 0x08 else c) # rest)"

text \<open>
  \<^verbatim>\<open>writeArrayOrDict\<close> runs on the parent; its result holds the parent afterwards and the
  four fields it stores in the child: \<^verbatim>\<open>_valPtr\<close>, \<^verbatim>\<open>_keyPtr\<close>, \<^verbatim>\<open>_valOff\<close>, \<^verbatim>\<open>_keyOff\<close>.
  The product \<^verbatim>\<open>count * width\<close> is computed in 32 bits.
\<close>

definition writeArrayOrDict ::
  "byte \<Rightarrow> 32 word \<Rightarrow> bool \<Rightarrow> encoder \<Rightarrow> shared
     \<Rightarrow> error + (encoder \<times> (nat option \<times> nat option \<times> nat \<times> nat) \<times> shared)" where
  "writeArrayOrDict tag cnt wide e sh =
     (case writeValue tag (headerBuf cnt wide) (cnt = 0) e sh of
        Inl err \<Rightarrow> Inl err
      | Inr (_, e1, sh1) \<Rightarrow>
          (let w = (if wide then 4 else 2 :: 32 word);
               slots = unat (cnt * w);
               space = (if tag = kDictTag then slots * 2 else slots);
               vOff = length (out sh1);
               (p, w1) = Writer_reserveSpace space (out sh1);
               sh2 = sh1\<lparr>out := w1\<rparr>
           in if tag = kDictTag
              then Inr (e1, (Some (p + slots), Some p, vOff + slots, vOff), sh2)
              else Inr (e1, (Some p, None, vOff, 0), sh2)))"

text \<open>
  The constructor of a child encoder: the result is the parent afterwards, the child and
  the shared state.
\<close>

definition encoder_child ::
  "encoder \<Rightarrow> valueType \<Rightarrow> 32 word \<Rightarrow> bool \<Rightarrow> shared \<Rightarrow> error + (encoder \<times> encoder \<times> shared)" where
  "encoder_child par type cnt wide sh =
     (let dict = (type = kDict)
      in case writeArrayOrDict (if dict then kDictTag else kArrayTag) cnt wide par sh of
           Inl err \<Rightarrow> Inl err
         | Inr (par1, (vp, kp, vo, ko), sh1) \<Rightarrow>
             Inr (par1,
                  \<lparr> parent = True, valPtr = vp, keyPtr = kp, valOff = vo, keyOff = ko,
                    count = cnt, width = (if wide then 4 else 2),
                    writingKey = dict, blockedOnKey = dict \<rparr>,
                  sh1))"

definition writeKey ::
  "nat \<Rightarrow> byte list \<Rightarrow> encoder \<Rightarrow> shared \<Rightarrow> error + (encoder \<times> shared)" where
  "writeKey kMaxSharedStringSize s e sh =
     (if \<not> blockedOnKey e
      then Inl (ProtocolViolation (if keyPtr e \<noteq> None then NeedValueAfterKey else NotADictionary))
      else writeString kMaxSharedStringSize s (e\<lparr>blockedOnKey := False\<rparr>) sh)"

section \<open>Reading the format\<close>

text \<open>
  Modelled from the spec: the reader of a short integer (the decoder is not part of the
  sources). Section 4.1 has the tag in the high nibble of the first byte and a 12-bit two's
  complement payload in the remaining bits, the high bits first as \<^verbatim>\<open>writeInt\<close> lays
  them out.
\<close>

definition decodeShortInt :: "byte list \<Rightarrow> int option" where
  "decodeShortInt bs =
     (case bs of
        [b0, b1] \<Rightarrow>
          if drop_bit 4 b0 = kShortIntTag then
            (let v = uint (b0 AND 0x0F) * 256 + uint b1
             in Some (if v \<ge> 2048 then v - 4096 else v))
          else None
      | _ \<Rightarrow> None)"

section \<open>Example documents\<close>

text \<open>
  A narrow array of three elements opened on a fresh root over an empty output: the child
  encoder and the output after the constructor has run (lemma \<open>arr3_built\<close>).
\<close>

definition arr3 :: encoder where
  "arr3 = \<lparr> parent = True, valPtr = Some 2, keyPtr = None, valOff = 2, keyOff = 0,
            count = 3, width = 2, writingKey = False, blockedOnKey = False \<rparr>"

definition doc3 :: shared where
  "doc3 = \<lparr> out = [0x60, 0x03, 0, 0, 0, 0, 0, 0], strings = Map.empty \<rparr>"

text \<open>
  An instance of the floating-point primitives to run \<^verbatim>\<open>writeDouble\<close> and \<^verbatim>\<open>writeFloat\<close>
  on: the numbers that are multiples of one half, the integer \<open>k\<close> standing for \<open>k / 2\<close>,
  none of them a NaN. The conversion to an integer truncates towards zero. The byte image
  is a stand-in of the right length, not that of IEEE 754.
\<close>

definition halves :: "nat \<Rightarrow> (int, 'i::len word) floatPrims" where
  "halves n =
     \<lparr> isNaN = (\<lambda>k. False),
       toInteger = (\<lambda>k. word_of_int (cdiv2 k)),
       ofInteger = (\<lambda>w. 2 * sint w),
       equalF = (\<lambda>a b. a = b),
       littleEndian = (\<lambda>k. replicate n 0) \<rparr>"

text \<open>
  A narrow dictionary of one entry opened on a fresh root over an empty output (lemma
  \<open>dict1_built\<close>), and the same dictionary after \<^verbatim>\<open>writeKey("k")\<close> (lemma
  \<open>dict1_writeKey\<close>).
\<close>

definition dict1 :: encoder where
  "dict1 = \<lparr> parent = True, valPtr = Some 4, keyPtr = Some 2, valOff = 4, keyOff = 2,
             count = 1, width = 2, writingKey = True, blockedOnKey = True \<rparr>"

definition docd1 :: shared where
  "docd1 = \<lparr> out = [0x70, 0x01, 0, 0, 0, 0], strings = Map.empty \<rparr>"

definition dict1k :: encoder where
  "dict1k = \<lparr> parent = True, valPtr = Some 4, keyPtr = Some 4, valOff = 4, keyOff = 4,
             count = 1, width = 2, writingKey = False, blockedOnKey = False \<rparr>"

definition docd1k :: shared where
  "docd1k = \<lparr> out = [0x70, 0x01, 0x41, 0x6B, 0, 0], strings = Map.empty \<rparr>"

text \<open>
  The child encoder of a narrow array of any declared count opened on a fresh root over an
  empty output.
\<close>

definition arrayOf :: "32 word \<Rightarrow> encoder" where
  "arrayOf n = \<lparr> parent = True, valPtr = Some 2, keyPtr = None, valOff = 2, keyOff = 0,
            count = n, width = 2, writingKey = False, blockedOnKey = False \<rparr>"

text \<open>
  Two readings of the first two bytes of a value as one 16-bit integer: most significant
  byte first and least significant byte first. The count field of an array or dictionary
  header is the low 11 bits of that integer (the tag and the wide flag are above it).
\<close>

definition readBE16 :: "byte list \<Rightarrow> nat" where
  "readBE16 bs = (case bs of b0 # b1 # _ \<Rightarrow> 256 * unat b0 + unat b1 | _ \<Rightarrow> 0)"

definition readLE16 :: "byte list \<Rightarrow> nat" where
  "readLE16 bs = (case bs of b0 # b1 # _ \<Rightarrow> unat b0 + 256 * unat b1 | _ \<Rightarrow> 0)"

text \<open>
  A document in which a string is far from a later slot. A wide array of three elements
  is opened on a fresh root (\<open>wideArr\<close>, \<open>wideDoc\<close>); the string "hello" is written
  (\<open>wideArr1\<close>, \<open>wideDoc1\<close>), then 32768 bytes of binary data (\<open>wideArr2\<close>, \<open>wideDoc2\<close>).
  The third element is a narrow collection of one entry: an array (\<open>farArr\<close>,
  \<open>farArrDoc\<close>) or a dictionary (\<open>farDict\<close>, \<open>farDictDoc\<close>), whose slots lie more than
  32768 bytes behind "hello". \<open>wideArr3\<close> is the wide array after that.
\<close>

definition hello :: "byte list" where
  "hello = [0x68, 0x65, 0x6C, 0x6C, 0x6F]"

definition bigData :: "byte list" where
  "bigData = replicate 32768 0"

definition wideArr :: encoder where
  "wideArr = \<lparr> parent = True, valPtr = Some 2, keyPtr = None, valOff = 2, keyOff = 0,
               count = 3, width = 4, writingKey = False, blockedOnKey = False \<rparr>"

definition wideDoc :: shared where
  "wideDoc = \<lparr> out = [0x68, 0x03, 0, 0, 0, 0, 0, 0, 0, 0, 0, 0, 0, 0], strings = Map.empty \<rparr>"

definition wideArr1 :: encoder where
  "wideArr1 = wideArr \<lparr> valPtr := Some 6, valOff := 6, count := 2 \<rparr>"

definition wideDoc1 :: shared where
  "wideDoc1 = \<lparr> out = [0x68, 0x03, 0x86, 0, 0, 0, 0, 0, 0, 0, 0, 0, 0, 0,
                          0x45, 0x68, 0x65, 0x6C, 0x6C, 0x6F],
                 strings = [hello \<mapsto> 14] \<rparr>"

definition wideArr2 :: encoder where
  "wideArr2 = wideArr \<lparr> valPtr := Some 10, valOff := 10, count := 1 \<rparr>"

definition wideDoc2 :: shared where
  "wideDoc2 = \<lparr> out = [0x68, 0x03, 0x86, 0, 0, 0, 0x87, 0, 0, 0, 0, 0, 0, 0,
                          0x45, 0x68, 0x65, 0x6C, 0x6C, 0x6F, 0x5F, 0x80, 0x80, 0x02] @ bigData,
                 strings = [hello \<mapsto> 14] \<rparr>"

definition wideArr3 :: encoder where
  "wideArr3 = wideArr \<lparr> valPtr := Some 14, valOff := 14, count := 0 \<rparr>"

definition farDocPrefix :: "byte list" where
  "farDocPrefix = [0x68, 0x03, 0x86, 0, 0, 0, 0x87, 0, 0, 0, 0x87, 0x40, 0, 0,
                   0x45, 0x68, 0x65, 0x6C, 0x6C, 0x6F, 0x5F, 0x80, 0x80, 0x02] @ bigData"

definition farArr :: encoder where
  "farArr = \<lparr> parent = True, valPtr = Some 32794, keyPtr = None, valOff = 32794, keyOff = 0,
              count = 1, width = 2, writingKey = False, blockedOnKey = False \<rparr>"

definition farArrDoc :: shared where
  "farArrDoc = \<lparr> out = farDocPrefix @ [0x60, 0x01, 0, 0], strings = [hello \<mapsto> 14] \<rparr>"

definition farDict :: encoder where
  "farDict = \<lparr> parent = True, valPtr = Some 32796, keyPtr = Some 32794, valOff = 32796,
               keyOff = 32794, count = 1, width = 2, writingKey = True, blockedOnKey = True \<rparr>"

definition farDictDoc :: shared where
  "farDictDoc = \<lparr> out = farDocPrefix @ [0x70, 0x01, 0, 0, 0, 0], strings = [hello \<mapsto> 14] \<rparr>"

text \<open>
  The dictionary \<open>farDict\<close> after \<^verbatim>\<open>writeKey("hello")\<close>, after \<^verbatim>\<open>writeInt(5)\<close> and after
  \<^verbatim>\<open>writeInt(6)\<close>.
\<close>

definition farDict1 :: encoder where
  "farDict1 = farDict\<lparr>blockedOnKey := False\<rparr>"

definition farDictDoc1 :: shared where
  "farDictDoc1 = farDictDoc\<lparr>strings := [hello \<mapsto> 32798]\<rparr>"

definition farDict2 :: encoder where
  "farDict2 = farDict\<lparr>keyPtr := Some 32796, keyOff := 32796, writingKey := False,
                          blockedOnKey := False\<rparr>"

definition farDictDoc2 :: shared where
  "farDictDoc2 = \<lparr> out = farDocPrefix @ [0x70, 0x01, 0x00, 0x05, 0, 0],
                    strings = [hello \<mapsto> 32798] \<rparr>"

definition farDict3 :: encoder where
  "farDict3 = farDict\<lparr>valPtr := Some 32798, keyPtr := Some 32796, valOff := 32798,
                          keyOff := 32796, count := 0\<rparr>"

definition farDictDoc3 :: shared where
  "farDictDoc3 = \<lparr> out = farDocPrefix @ [0x70, 0x01, 0x00, 0x05, 0x00, 0x06],
                    strings = [hello \<mapsto> 32798] \<rparr>"

text \<open>
  The array \<open>arr3\<close> after the strings "hell", "world" and "world" again.
\<close>

definition hell :: "byte list" where "hell = [0x68, 0x65, 0x6C, 0x6C]"

definition world :: "byte list" where "world = [0x77, 0x6F, 0x72, 0x6C, 0x64]"

definition arr3a :: encoder where
  "arr3a = arr3\<lparr>valPtr := Some 4, valOff := 4, count := 2\<rparr>"

definition doc3a :: shared where
  "doc3a = \<lparr> out = [0x60, 0x03, 0x83, 0, 0, 0, 0, 0, 0x44, 0x68, 0x65, 0x6C, 0x6C],
              strings = [hell \<mapsto> 8] \<rparr>"

definition arr3b :: encoder where
  "arr3b = arr3\<lparr>valPtr := Some 6, valOff := 6, count := 1\<rparr>"

definition doc3b :: shared where
  "doc3b = \<lparr> out = [0x60, 0x03, 0x83, 0, 0x85, 0, 0, 0, 0x44, 0x68, 0x65, 0x6C, 0x6C, 0,
                       0x45, 0x77, 0x6F, 0x72, 0x6C, 0x64],
              strings = [hell \<mapsto> 8, world \<mapsto> 13] \<rparr>"

definition arr3c :: encoder where
  "arr3c = arr3\<lparr>valPtr := Some 8, valOff := 8, count := 0\<rparr>"

definition doc3c :: shared where
  "doc3c = \<lparr> out = [0x60, 0x03, 0x83, 0, 0x85, 0, 0x83, 0, 0x44, 0x68, 0x65, 0x6C, 0x6C, 0,
                       0x45, 0x77, 0x6F, 0x72, 0x6C, 0x64],
              strings = [hell \<mapsto> 8, world \<mapsto> 13] \<rparr>"

section \<open>Lemmas on bytes and on the writer\<close>

lemma low_nibble_tag: "((b :: byte) OR push_bit 4 t) AND 0x0F = b AND 0x0F"
proof -
  have "(0x0F :: byte) = mask 4" by (simp add: mask_eq_exp_minus_1)
  then show ?thesis
    by (simp add: bit_eq_iff bit_simps) (auto simp: bit_simps)
qed

lemma uint_hi: "uint (ucast (drop_bit 8 (i :: 64 word) AND 0x0F) :: byte) = (uint i div 256) mod 16"
proof -
  have m: "(0x0F :: 64 word) = mask 4" by (simp add: mask_eq_exp_minus_1)
  have "(uint i div 256 mod 16) mod 256 = uint i div 256 mod 16"
    by (rule mod_pos_pos_trivial) (simp_all add: order_less_trans [OF pos_mod_bound])
  then show ?thesis unfolding m
    by (simp add: unsigned_ucast_eq unsigned_take_bit_eq unsigned_drop_bit_eq
          take_bit_eq_mod drop_bit_eq_div uint_mod uint_div flip: take_bit_eq_mask)
qed

lemma uint_lo: "uint (ucast ((i :: 64 word) AND 0xFF) :: byte) = uint i mod 256"
proof -
  have m: "(0xFF :: 64 word) = mask 8" by (simp add: mask_eq_exp_minus_1)
  show ?thesis unfolding m
    by (simp add: unsigned_ucast_eq unsigned_take_bit_eq unsigned_drop_bit_eq
          take_bit_eq_mod drop_bit_eq_div uint_mod uint_div flip: take_bit_eq_mask)
qed

lemma uint_sint_mod: "uint (i :: 64 word) mod 4096 = sint i mod 4096"
proof -
  have "uint i = sint i mod 2 ^ 64"
    by (simp add: uint_sint take_bit_eq_mod)
  moreover have "(sint i mod 2 ^ 64) mod 4096 = sint i mod 4096"
    by (rule mod_mod_cancel) simp
  ultimately show ?thesis by simp
qed

lemma split12: "(k :: int) div 256 mod 16 * 256 + k mod 256 = k mod 4096"
  using zmod_zmult2_eq [of 16 k 256] by simp

lemma nibble_clear: "(ucast ((x :: 64 word) AND 0x0F) :: byte) AND 0xF0 = 0"
proof -
  have m: "(0x0F :: 64 word) = mask 4" by (simp add: mask_eq_exp_minus_1)
  have n: "(0xF0 :: byte) = push_bit 4 (mask 4)" by (simp add: mask_eq_exp_minus_1)
  show ?thesis unfolding m n
    by (rule bit_eqI) (auto simp: bit_simps)
qed

lemma high_nibble_tag:
  assumes "(b :: byte) AND 0xF0 = 0" "t < 16"
  shows "drop_bit 4 (b OR push_bit 4 t) = t"
proof -
  have n: "(0xF0 :: byte) = push_bit 4 (mask 4)" by (simp add: mask_eq_exp_minus_1)
  from assms(1) have "\<not> bit (b AND push_bit 4 (mask 4)) k" for k
    unfolding n by simp
  then have z: "\<not> bit (b AND push_bit 4 (mask 4)) (4 + k)" for k .
  have hi: "\<not> bit b (4 + k)" for k
  proof
    assume a: "bit b (4 + k)"
    then have "4 + k < 8" using bit_imp_le_length [of b "4 + k"] by simp
    with a have "bit (b AND push_bit 4 (mask 4)) (4 + k)"
      by (simp add: bit_simps)
    with z show False by blast
  qed
  have "drop_bit 4 b = 0"
    by (rule bit_eqI) (simp add: bit_simps hi)
  moreover have "drop_bit 4 (push_bit 4 t) = t"
  proof -
    from assms(2) have t: "unat t < 16" by (simp add: word_less_nat_alt)
    then have "unat (push_bit 4 t) = unat t * 16"
      by (simp add: push_bit_eq_mult unat_word_ariths)
    then have "unat (drop_bit 4 (push_bit 4 t)) = unat t"
      by (simp add: drop_bit_eq_div unat_div)
    then show ?thesis by (simp only: word_unat_eq_iff)
  qed
  ultimately show ?thesis
    by (simp add: drop_bit_or)
qed

lemma rewrite_twice:
  assumes "p + n \<le> length w" "length bs \<le> n"
  shows "Writer_rewrite p bs w = Some (take p w @ bs @ drop (p + length bs) w)"
    and "Writer_rewrite (p + length bs) (replicate (n - length bs) 0) (take p w @ bs @ drop (p + length bs) w)
         = Some (take p w @ bs @ replicate (n - length bs) 0 @ drop (p + n) w)"
proof -
  from assms have le: "p + length bs \<le> length w" "p \<le> length w" by simp_all
  then show "Writer_rewrite p bs w = Some (take p w @ bs @ drop (p + length bs) w)"
    by (simp add: Writer_rewrite_def)
  from le assms have len: "length (take p w @ bs @ drop (p + length bs) w) = length w"
    by simp
  have tk: "take (p + length bs) (take p w @ bs @ drop (p + length bs) w) = take p w @ bs"
    using le by (cases bs) (auto simp: min_def)
  have dr: "drop (p + length bs + (n - length bs)) (take p w @ bs @ drop (p + length bs) w)
              = drop (p + n) w"
  proof -
    have g: "\<And>(xs :: byte list) ys k. length xs = k \<Longrightarrow> drop k (xs @ ys) = ys" by simp
    have "length (take p w @ bs) = p + length bs" using le by simp
    from g [OF this, of "drop (p + length bs) w"]
    have "drop (p + length bs) (take p w @ bs @ drop (p + length bs) w) = drop (p + length bs) w"
      by simp
    then have "drop (n - length bs) (drop (p + length bs) (take p w @ bs @ drop (p + length bs) w))
                 = drop (n - length bs) (drop (p + length bs) w)"
      by simp
    then show ?thesis
      using assms by (simp add: add.commute add.left_commute)
  qed
  show "Writer_rewrite (p + length bs) (replicate (n - length bs) 0)
          (take p w @ bs @ drop (p + length bs) w)
        = Some (take p w @ bs @ replicate (n - length bs) 0 @ drop (p + n) w)"
    unfolding Writer_rewrite_def len tk dr length_replicate using assms by simp
qed

lemma writeValue_root:
  assumes "\<not> parent e" "count e \<noteq> 0" "\<not> blockedOnKey e" "tag < kPointerTagFirst" "highNibbleClear buf"
  shows "writeValue tag buf c e sh =
           Inr (Some (length (out sh)), finishValue e, sh\<lparr>out := out sh @ addTag tag buf\<rparr>)"
  using assms by (simp add: writeValue_def Writer_write_def)

lemma placeInParent_inline:
  assumes "slotPtr e = Some p" "p + width e \<le> length (out sh)" "length buf \<le> width e"
  shows "placeInParent buf True e sh =
           Inr (Some p, advanceSlot e,
                sh\<lparr>out := take p (out sh) @ buf @ replicate (width e - length buf) 0
                              @ drop (p + width e) (out sh)\<rparr>)"
proof (cases "length buf < width e")
  case True
  with assms rewrite_twice [of p "width e" "out sh" buf] show ?thesis
    by (simp add: placeInParent_def)
next
  case False
  with assms have "length buf = width e" by simp
  with assms rewrite_twice(1) [of p "width e" "out sh" buf] show ?thesis
    by (simp add: placeInParent_def)
qed

lemma writeValue_inline:
  assumes "parent e" "count e \<noteq> 0" "\<not> blockedOnKey e"
    and "tag < kPointerTagFirst \<longrightarrow> highNibbleClear buf"
    and "slotPtr e = Some p" "p + width e \<le> length (out sh)" "length buf \<le> width e"
  shows "writeValue tag buf True e sh =
           Inr (Some p, finishValue (advanceSlot e),
                sh\<lparr>out := take p (out sh)
                       @ (if tag < kPointerTagFirst then addTag tag buf else buf)
                       @ replicate (width e - length buf) 0
                       @ drop (p + width e) (out sh)\<rparr>)"
proof -
  have len: "length (addTag tag buf) = length buf"
    by (simp add: addTag_def split: list.splits)
  show ?thesis
    using assms placeInParent_inline [of e p sh "addTag tag buf"]
      placeInParent_inline [of e p sh buf]
    by (simp add: writeValue_def len)
qed

lemma replicate_numeral: "replicate (numeral k) x = x # replicate (pred_numeral k) x"
  by (simp add: numeral_eq_Suc)

lemma headerBuf_3: "headerBuf 3 False = [0, 3]"
  by (simp add: headerBuf_def)

lemma arr3_built:
  "encoder_child encoder_root kArray 3 False (shared_root []) =
     Inr (encoder_root\<lparr>count := 0\<rparr>, arr3, doc3)"
  by (simp add: encoder_child_def writeArrayOrDict_def headerBuf_3 writeValue_def encoder_root_def
      shared_root_def kArrayTag_def kDictTag_def kPointerTagFirst_def highNibbleClear_def addTag_def
      Writer_write_def Writer_reserveSpace_def finishValue_def arr3_def doc3_def replicate_numeral)

section \<open>Short integers\<close>

lemma kShortIntTag_small: "kShortIntTag < kPointerTagFirst" "kShortIntTag < 16"
  by (simp_all add: kShortIntTag_def kPointerTagFirst_def)

lemma nibble_idem: "(ucast ((x :: 64 word) AND 0x0F) :: byte) AND 0x0F = ucast (x AND 0x0F)"
proof -
  have m: "(0x0F :: 64 word) = mask 4" by (simp add: mask_eq_exp_minus_1)
  have n: "(0x0F :: byte) = mask 4" by (simp add: mask_eq_exp_minus_1)
  show ?thesis unfolding m n
    by (rule bit_eqI) (auto simp: bit_simps)
qed

lemma decodeShortInt_bytes:
  assumes "- 2048 \<le> sint (i :: 64 word)" "sint i < 2048"
  shows "decodeShortInt (addTag kShortIntTag [ucast (drop_bit 8 i AND 0x0F), ucast (i AND 0xFF)])
           = Some (sint i)"
proof -
  let ?b0 = "ucast (drop_bit 8 i AND 0x0F) :: byte"
  let ?b1 = "ucast (i AND 0xFF) :: byte"
  have tag: "drop_bit 4 (?b0 OR push_bit 4 kShortIntTag) = kShortIntTag"
    by (rule high_nibble_tag [OF nibble_clear kShortIntTag_small(2)])
  have "uint ((?b0 OR push_bit 4 kShortIntTag) AND 0x0F) * 256 + uint ?b1 = sint i mod 4096"
    by (simp only: low_nibble_tag nibble_idem uint_hi uint_lo split12 uint_sint_mod)
  moreover have "sint i mod 4096 = (if sint i < 0 then sint i + 4096 else sint i)"
  proof (cases "sint i < 0")
    case True
    with assms have "(sint i + 4096) mod 4096 = sint i + 4096"
      by (intro mod_pos_pos_trivial) simp_all
    with True show ?thesis by simp
  next
    case False
    with assms have "sint i mod 4096 = sint i"
      by (intro mod_pos_pos_trivial) simp_all
    with False show ?thesis by simp
  qed
  ultimately show ?thesis
    using assms tag by (simp add: decodeShortInt_def addTag_def Let_def)
qed

text \<open>
  Claim C4. For every integer \<open>i\<close> with \<open>-2048 \<le> i < 2048\<close>, \<^verbatim>\<open>writeInt\<close> succeeds on an
  encoder that accepts a value (on a child, one whose slot lies in the output) and writes
  the short-integer form: exactly two bytes, appended to the output on the root and put
  into the slot, followed by zero padding up to the slot width, on a child. The two bytes
  carry the tag \<^verbatim>\<open>kShortIntTag\<close> and read back as exactly \<open>i\<close>.
\<close>

theorem writeInt_short_roundtrip:
  assumes "- 2048 \<le> sint i" "sint i < 2048"
    and "count e \<noteq> 0" "\<not> blockedOnKey e"
    and "parent e \<longrightarrow> 2 \<le> width e \<and> (\<exists>p. slotPtr e = Some p \<and> p + width e \<le> length (out sh))"
  shows "\<exists>e' sh' bs. writeInt i e sh = Inr (e', sh') \<and> length bs = 2
           \<and> decodeShortInt bs = Some (sint i)
           \<and> (if parent e
               then \<exists>p. slotPtr e = Some p
                      \<and> out sh' = take p (out sh) @ bs @ replicate (width e - 2) 0
                                     @ drop (p + width e) (out sh)
               else out sh' = out sh @ bs)"
proof -
  let ?buf = "[ucast (drop_bit 8 i AND 0x0F), ucast (i AND 0xFF)] :: byte list"
  let ?bs = "addTag kShortIntTag ?buf"
  have clear: "highNibbleClear ?buf"
    by (simp add: highNibbleClear_def nibble_clear)
  have len: "length ?bs = 2" by (simp add: addTag_def)
  have dec: "decodeShortInt ?bs = Some (sint i)"
    using assms(1,2) by (rule decodeShortInt_bytes)
  show ?thesis
  proof (cases "parent e")
    case False
    with assms clear have "writeInt i e sh = Inr (finishValue e, sh\<lparr>out := out sh @ ?bs\<rparr>)"
      by (simp add: writeInt_def writeInt3_def writeValue_root kShortIntTag_small)
    with False len dec show ?thesis by auto
  next
    case True
    with assms obtain p where p: "slotPtr e = Some p" "p + width e \<le> length (out sh)"
      and w: "2 \<le> width e" by auto
    with True assms clear
    have "writeInt i e sh =
            Inr (finishValue (advanceSlot e),
                 sh\<lparr>out := take p (out sh) @ ?bs @ replicate (width e - 2) 0
                               @ drop (p + width e) (out sh)\<rparr>)"
      by (simp add: writeInt_def writeInt3_def writeValue_inline [where p = p] kShortIntTag_small)
    with True len dec p show ?thesis by auto
  qed
qed

theorem writeInt_short_roundtrip_witness:
  "- 2048 \<le> sint (- 3 :: 64 word) \<and> sint (- 3 :: 64 word) < 2048
   \<and> count arr3 \<noteq> 0 \<and> \<not> blockedOnKey arr3 \<and> parent arr3 \<and> 2 \<le> width arr3
   \<and> slotPtr arr3 = Some 2 \<and> 2 + width arr3 \<le> length (out doc3)
   \<and> (\<exists>e' sh' bs. writeInt (- 3) arr3 doc3 = Inr (e', sh') \<and> length bs = 2
           \<and> decodeShortInt bs = Some (- 3) \<and> out sh' = [0x60, 0x03] @ bs @ [0, 0, 0, 0])"
  using writeInt_short_roundtrip [of "- 3" arr3 doc3]
  by (simp add: arr3_def doc3_def slotPtr_def)

section \<open>Floating-point values that are integers\<close>

text \<open>
  Claim C5. For every floating-point primitives and every double \<open>d\<close> that is not a NaN
  and compares equal to its conversion to \<^verbatim>\<open>int64_t\<close>, \<^verbatim>\<open>writeDouble\<close> is \<^verbatim>\<open>writeInt\<close> of
  that integer: the same result on every encoder and shared state, hence the same bytes in
  the output. Likewise \<^verbatim>\<open>writeFloat\<close> of a float \<open>f\<close> that is not a NaN and compares equal
  to its conversion to \<^verbatim>\<open>int32_t\<close> is \<^verbatim>\<open>writeInt\<close> of that integer.
\<close>

theorem writeDouble_integral:
  "(\<not> isNaN P d \<and> equalF P d (ofInteger P (toInteger P d)) \<longrightarrow>
      writeDouble P d e sh = writeInt (toInteger P d) e sh)
   \<and> (\<not> isNaN Q f \<and> equalF Q f (ofInteger Q (toInteger Q f)) \<longrightarrow>
      writeFloat Q f e sh = writeInt (scast (toInteger Q f)) e sh)"
  by (simp add: writeDouble_def writeFloat_def)

theorem writeDouble_integral_witness:
  "\<not> isNaN (halves 8 :: (int, 64 word) floatPrims) (- 6)
   \<and> equalF (halves 8 :: (int, 64 word) floatPrims) (- 6)
        (ofInteger (halves 8 :: (int, 64 word) floatPrims) (toInteger (halves 8 :: (int, 64 word) floatPrims) (- 6)))
   \<and> toInteger (halves 8 :: (int, 64 word) floatPrims) (- 6) = - 3
   \<and> writeDouble (halves 8) (- 6) arr3 doc3 = writeInt (- 3) arr3 doc3
   \<and> \<not> isNaN (halves 4 :: (int, 32 word) floatPrims) 14
   \<and> equalF (halves 4 :: (int, 32 word) floatPrims) 14
        (ofInteger (halves 4 :: (int, 32 word) floatPrims) (toInteger (halves 4 :: (int, 32 word) floatPrims) 14))
   \<and> writeFloat (halves 4) 14 arr3 doc3 = writeInt 7 arr3 doc3"
  using writeDouble_integral [of "halves 8" "- 6" arr3 doc3 "halves 4" 14]
  by (simp add: halves_def cdiv2_def)

text \<open>
  For comparison, a double that is not an integer (2.5) goes out as a float value of ten
  bytes.
\<close>

lemma writeDouble_fraction:
  "writeDouble (halves 8) 5 encoder_root (shared_root []) =
     Inr (encoder_root\<lparr>count := 0\<rparr>, shared_root [0x28, 0, 0, 0, 0, 0, 0, 0, 0, 0])"
  by (simp add: writeDouble_def halves_def cdiv2_def writeValue_def kFloatTag_def
      kPointerTagFirst_def highNibbleClear_def addTag_def Writer_write_def finishValue_def
      encoder_root_def shared_root_def replicate_numeral)

section \<open>Counting the remaining slots\<close>

lemma headerBuf_1: "headerBuf 1 False = [0, 1]"
  by (simp add: headerBuf_def word_le_nat_alt)

lemma dict1_built:
  "encoder_child encoder_root kDict 1 False (shared_root []) =
     Inr (encoder_root\<lparr>count := 0\<rparr>, dict1, docd1)"
  by (simp add: encoder_child_def writeArrayOrDict_def headerBuf_1 writeValue_def encoder_root_def
      shared_root_def kArrayTag_def kDictTag_def kPointerTagFirst_def highNibbleClear_def addTag_def
      Writer_write_def Writer_reserveSpace_def finishValue_def dict1_def docd1_def replicate_numeral)

lemma dict1_writeKey: "writeKey 100 [0x6B] dict1 docd1 = Inr (dict1k, docd1k)"
  by (simp add: writeKey_def writeString_def writeData_def writeValue_def placeInParent_def
      slotPtr_def Writer_rewrite_def advanceSlot_def finishValue_def
      kStringTag_def kPointerTagFirst_def highNibbleClear_def addTag_def
      dict1_def docd1_def dict1k_def docd1k_def)

lemma placeInParent_Inr:
  assumes "placeInParent buf c e sh = Inr (r, e', sh')"
  shows "e' = advanceSlot e"
  using assms
  by (auto simp: placeInParent_def Let_def split: option.splits if_splits sum.splits)

lemma writeValue_Inr:
  assumes "writeValue tag buf c e sh = Inr (r, e', sh')"
  shows "count e \<noteq> 0" "\<not> blockedOnKey e"
    "e' = finishValue (if parent e then advanceSlot e else e)"
  using assms
  by (auto simp: writeValue_def Let_def split: if_splits sum.splits dest: placeInParent_Inr)

lemma count_finishValue:
  "count (finishValue e) = (if writingKey e then count e else count e - 1)"
  by (simp add: finishValue_def Let_def)

lemma advanceSlot_fields [simp]:
  "count (advanceSlot e) = count e" "writingKey (advanceSlot e) = writingKey e"
  "blockedOnKey (advanceSlot e) = blockedOnKey e" "parent (advanceSlot e) = parent e"
  "width (advanceSlot e) = width e"
  "(keyPtr (advanceSlot e) = None) = (keyPtr e = None)"
  by (simp_all add: advanceSlot_def)

lemma writeValue_count:
  assumes "writeValue tag buf c e sh = Inr (r, e', sh')"
  shows "count e' = (if writingKey e then count e else count e - 1)"
  using writeValue_Inr(3) [OF assms] by (simp add: count_finishValue)

lemma writePointerTo_count:
  assumes "writePointerTo off e sh = Inr (Some (e', sh'))"
  shows "count e' = (if writingKey e then count e else count e - 1)"
  using assms
  by (auto simp: writePointerTo_def split: sum.splits option.splits dest!: writeValue_count)

lemma writeData_count:
  assumes "writeData tag s e sh = Inr (r, e', sh')"
  shows "count e' = (if writingKey e then count e else count e - 1)"
  using assms
  by (auto simp: writeData_def Let_def split: sum.splits if_splits dest!: writeValue_count)

lemma writeString_key_count:
  assumes "writeString k s e sh = Inr (e', sh')" "writingKey e"
  shows "count e' = count e"
  using assms
  by (auto simp: writeString_def Let_def split: sum.splits if_splits option.splits
      dest!: writeData_count writePointerTo_count)

lemma unat_pred: "(w :: 32 word) \<noteq> 0 \<Longrightarrow> Suc (unat (w - 1)) = unat w"
proof -
  assume "w \<noteq> 0"
  then have "unat w \<noteq> 0" by (simp add: unat_eq_zero)
  moreover from \<open>w \<noteq> 0\<close> have "unat (w - 1) = unat w - 1" by (rule unat_minus_one)
  ultimately show ?thesis by simp
qed

lemma finishValue_flags:
  "\<not> blockedOnKey e \<Longrightarrow> blockedOnKey (finishValue e) \<longrightarrow> writingKey (finishValue e)"
  by (simp add: finishValue_def Let_def)

lemma writeValue_flags:
  assumes "writeValue tag buf c e sh = Inr (r, e', sh')"
  shows "blockedOnKey e' \<longrightarrow> writingKey e'"
  using writeValue_Inr [OF assms] finishValue_flags [of "if parent e then advanceSlot e else e"]
  by (simp split: if_splits)

lemma encoder_child_flags:
  assumes "encoder_child par type cnt wide sh = Inr (par', child, sh')"
  shows "blockedOnKey child = writingKey child" "blockedOnKey par' \<longrightarrow> writingKey par'"
  using assms
  by (auto simp: encoder_child_def writeArrayOrDict_def Let_def Writer_reserveSpace_def
      split: sum.splits if_splits dest!: writeValue_flags)

text \<open>
  What \<^verbatim>\<open>writeValue\<close> does to the count of remaining slots (\<^verbatim>\<open>_count\<close>): a write with
  \<^verbatim>\<open>_writingKey\<close> clear takes exactly one off, a write with \<^verbatim>\<open>_writingKey\<close> set (the
  bytes go to the key slot) leaves it, and so does a whole \<^verbatim>\<open>writeKey\<close> on an encoder that
  is blocked on a key only while it is writing keys, which every encoder is (lemmas
  \<open>writeValue_flags\<close> and \<open>encoder_child_flags\<close>). \<^verbatim>\<open>end\<close> succeeds if and only if the
  count is zero and raises \<open>IncompleteCollection\<close> otherwise; it neither reads nor changes
  the output. Whether a public call writes a value or a key is another matter: see
  \<open>value_write_leaves_count\<close> below.
\<close>

lemma remaining_slots:
  "(writeValue tag buf c e sh = Inr (r, e1, sh1) \<longrightarrow>
      (if writingKey e then count e1 = count e else unat (count e1) + 1 = unat (count e)))
   \<and> ((blockedOnKey e \<longrightarrow> writingKey e) \<and> writeKey k s e sh = Inr (e2, sh2) \<longrightarrow>
        count e2 = count e)
   \<and> end_encoder e = (if count e = 0 then Inr () else Inl IncompleteCollection)"
proof (intro conjI impI)
  assume w: "writeValue tag buf c e sh = Inr (r, e1, sh1)"
  from writeValue_Inr(1) [OF w] writeValue_count [OF w]
  show "if writingKey e then count e1 = count e else unat (count e1) + 1 = unat (count e)"
    by (simp add: unat_pred)
next
  assume "(blockedOnKey e \<longrightarrow> writingKey e) \<and> writeKey k s e sh = Inr (e2, sh2)"
  then show "count e2 = count e"
    by (auto simp: writeKey_def split: if_splits dest!: writeString_key_count)
next
  show "end_encoder e = (if count e = 0 then Inr () else Inl IncompleteCollection)"
    by (simp add: end_encoder_def word_greater_zero_iff)
qed

lemma remaining_slots_example:
  "blockedOnKey dict1 \<and> writingKey dict1
   \<and> writeKey 100 [0x6B] dict1 docd1 = Inr (dict1k, docd1k)
   \<and> count dict1k = count dict1 \<and> end_encoder dict1k = Inl IncompleteCollection
   \<and> \<not> writingKey dict1k
   \<and> (\<exists>r e3 sh3. writeValue kShortIntTag [0, 5] True dict1k docd1k = Inr (r, e3, sh3)
         \<and> unat (count e3) + 1 = unat (count dict1k) \<and> end_encoder e3 = Inr ())"
  using remaining_slots [of kShortIntTag "[0, 5]" True dict1k docd1k "Some 4"
      "finishValue (advanceSlot dict1k)"
      "docd1k\<lparr>out := [0x70, 0x01, 0x41, 0x6B, 0, 5]\<rparr>"]
    remaining_slots [of _ _ _ dict1 docd1 _ _ _ 100 "[0x6B]" dict1k docd1k]
    remaining_slots [of _ _ _ "finishValue (advanceSlot dict1k)"]
    dict1_writeKey
    writeValue_inline [of dict1k kShortIntTag "[0, 5]" 4 docd1k]
  by (simp add: dict1_def dict1k_def docd1k_def slotPtr_def kShortIntTag_def kPointerTagFirst_def
      highNibbleClear_def addTag_def end_encoder_def finishValue_def advanceSlot_def)

section \<open>Resetting\<close>

text \<open>
  Claim C9, as stated, fails: the root of \<open>arr3_built\<close> has a live child (the array still
  expects three values, \<^verbatim>\<open>end\<close> on it raises), and \<^verbatim>\<open>reset\<close> on that root succeeds.
\<close>

theorem reset_live_child_counterexample:
  "encoder_child encoder_root kArray 3 False (shared_root []) =
     Inr (encoder_root\<lparr>count := 0\<rparr>, arr3, doc3)
   \<and> end_encoder arr3 = Inl IncompleteCollection
   \<and> reset (encoder_root\<lparr>count := 0\<rparr>) doc3 = Inr (encoder_root, shared_root [])"
  using arr3_built
  by (simp add: reset_def end_encoder_def arr3_def doc3_def encoder_root_def shared_root_def)

text \<open>
  Claim C9, amended. \<^verbatim>\<open>reset\<close> fails with \<open>InvalidReset\<close> exactly when the encoder has a
  parent; on every root, with or without live children, it succeeds, and then the string
  table is empty, the output is empty and the root expects one value again: a root made by
  the constructor is, whatever its count has become, back in the state of a new root over
  an empty output.
\<close>

theorem reset_root_only:
  "(reset e sh = Inl InvalidReset \<longleftrightarrow> parent e)
   \<and> (\<not> parent e \<longrightarrow> reset e sh = Inr (e\<lparr>count := 1\<rparr>, shared_root []))
   \<and> reset (encoder_root\<lparr>count := c\<rparr>) sh = Inr (encoder_root, shared_root [])"
proof -
  have fresh: "sh\<lparr>out := [], strings := Map.empty\<rparr> = shared_root []"
    by (cases sh) (simp add: shared_root_def)
  show ?thesis
    by (simp add: reset_def fresh) (simp add: encoder_root_def)
qed

theorem reset_root_only_witness:
  "\<not> parent (encoder_root\<lparr>count := 0\<rparr>)
   \<and> reset (encoder_root\<lparr>count := 0\<rparr>) doc3 \<noteq> Inl InvalidReset
   \<and> reset (encoder_root\<lparr>count := 0\<rparr>) doc3 = Inr (encoder_root, shared_root [])
   \<and> parent arr3 \<and> reset arr3 doc3 = Inl InvalidReset"
  using reset_root_only [of "encoder_root\<lparr>count := 0\<rparr>" doc3 0]
    reset_root_only [of arr3 doc3 0]
  by (simp add: encoder_root_def arr3_def)

section \<open>Strings on the root\<close>

lemma min15_clear: "(of_nat (min n 0xF) :: byte) AND 0xF0 = 0"
proof -
  have n: "(0xF0 :: byte) = push_bit 4 (mask 4)" by (simp add: mask_eq_exp_minus_1)
  have "min n 0xF < 2 ^ 4" by simp
  then have "take_bit 4 (min n 0xF) = min n 0xF" by (simp only: take_bit_nat_eq_self)
  then have "(of_nat (min n 0xF) :: byte) = take_bit 4 (of_nat (min n 0xF))"
    by (simp only: take_bit_of_nat)
  moreover have "take_bit 4 (x :: byte) AND push_bit 4 (mask 4) = 0" for x
    by (rule bit_eqI) (auto simp: bit_simps)
  ultimately show ?thesis unfolding n by metis
qed

lemma writeData_root:
  assumes "\<not> parent e" "width e = 0" "count e \<noteq> 0" "\<not> blockedOnKey e" "tag < kPointerTagFirst"
  shows "writeData tag s e sh =
           Inr (Some (length (out sh) + length (dataHeader (length s))), finishValue e,
                sh\<lparr>out := out sh @ addTag tag (dataHeader (length s)) @ s\<rparr>)"
proof -
  have c: "highNibbleClear (dataHeader (length s))"
    by (simp add: highNibbleClear_def dataHeader_def min15_clear)
  have l: "length (addTag tag (dataHeader (length s))) = length (dataHeader (length s))"
    by (simp add: addTag_def split: list.splits)
  show ?thesis
    using assms c writeValue_root [of e tag "dataHeader (length s)" False sh]
    by (simp add: writeData_def Let_def Writer_write_def l)
qed

text \<open>
  Claim C10. The root is constructed with width 0, so on the root every string of at most
  \<^verbatim>\<open>kMaxSharedStringSize\<close> bytes, the empty string included, takes the branch of
  \<^verbatim>\<open>writeString\<close> that uses the table: a string that is not in the table is written in
  full and entered with its position; a string that is in the table is not written but
  goes to \<^verbatim>\<open>writePointerTo\<close>, which stops at the assertion on the width in
  \<^verbatim>\<open>makePointer\<close>.
\<close>

theorem root_string_eligible:
  assumes "length s \<le> kMaxSharedStringSize"
  shows "width encoder_root = 0
    \<and> (strings sh s = None \<longrightarrow>
         writeString kMaxSharedStringSize s encoder_root sh =
           Inr (encoder_root\<lparr>count := 0\<rparr>,
                sh\<lparr>out := out sh @ addTag kStringTag (dataHeader (length s)) @ s,
                   strings := (strings sh)(s \<mapsto> length (out sh))\<rparr>))
    \<and> (strings sh s \<noteq> None \<longrightarrow>
         writeString kMaxSharedStringSize s encoder_root sh = Inl AssertionFailed)"
proof (intro conjI impI)
  show "width encoder_root = 0" by (simp add: encoder_root_def)
next
  assume "strings sh s = None"
  moreover have "writeData kStringTag s encoder_root sh =
      Inr (Some (length (out sh) + length (dataHeader (length s))), finishValue encoder_root,
           sh\<lparr>out := out sh @ addTag kStringTag (dataHeader (length s)) @ s\<rparr>)"
    by (rule writeData_root) (simp_all add: encoder_root_def kStringTag_def kPointerTagFirst_def)
  ultimately show "writeString kMaxSharedStringSize s encoder_root sh =
           Inr (encoder_root\<lparr>count := 0\<rparr>,
                sh\<lparr>out := out sh @ addTag kStringTag (dataHeader (length s)) @ s,
                   strings := (strings sh)(s \<mapsto> length (out sh))\<rparr>)"
    using assms
    by (simp add: writeString_def Let_def) (simp add: encoder_root_def finishValue_def)
next
  assume "strings sh s \<noteq> None"
  then obtain off where "strings sh s = Some off" by blast
  moreover have "makePointer off encoder_root = Inl AssertionFailed"
    by (simp add: makePointer_def encoder_root_def Let_def)
  ultimately show "writeString kMaxSharedStringSize s encoder_root sh = Inl AssertionFailed"
    using assms by (simp add: writeString_def writePointerTo_def) (simp add: encoder_root_def)
qed

theorem root_string_eligible_witness:
  "length ([] :: byte list) \<le> 100
   \<and> strings (shared_root []) [] = None
   \<and> writeString 100 [] encoder_root (shared_root []) =
        Inr (encoder_root\<lparr>count := 0\<rparr>,
             \<lparr>out = [0x40, 0], strings = [[] \<mapsto> 0]\<rparr>)
   \<and> strings \<lparr>out = [0x40, 0], strings = [[] \<mapsto> 0]\<rparr> [] \<noteq> None
   \<and> writeString 100 [] encoder_root \<lparr>out = [0x40, 0], strings = [[] \<mapsto> 0]\<rparr>
        = Inl AssertionFailed"
  using root_string_eligible [of "[]" 100 "shared_root []"]
    root_string_eligible [of "[]" 100 "\<lparr>out = [0x40, 0], strings = [[] \<mapsto> 0]\<rparr>"]
  by (simp add: shared_root_def dataHeader_def addTag_def kStringTag_def)

section \<open>The header of an array or dictionary\<close>

lemma unat_take_bit_3: "unat (take_bit 3 (x :: byte)) = unat x mod 8"
  by (simp add: take_bit_eq_mod unat_mod)

lemma low3_aux: "take_bit 3 (((b :: byte) OR push_bit 3 c) OR push_bit 4 t) = take_bit 3 b"
  by (rule bit_eqI) (auto simp: bit_simps)

lemma low3_tagged:
  "take_bit 3 ((if wide then (b :: byte) OR 0x08 else b) OR push_bit 4 t) = take_bit 3 b"
  using low3_aux [of b 1 t] low3_aux [of b 0 t] by simp

lemma inlineCount_bytes:
  fixes c :: "32 word"
  assumes "c \<le> 0x07FF"
  shows "256 * unat (take_bit 3 (ucast (drop_bit 8 c) :: byte)) + unat (ucast (c AND 0xFF) :: byte)
           = unat c"
proof -
  have m: "(0xFF :: 32 word) = mask 8" by (simp add: mask_eq_exp_minus_1)
  from assms have u: "unat c < 2048" by (simp add: word_le_nat_alt)
  have a: "unat (drop_bit 8 c) = unat c div 256"
    by (simp add: drop_bit_eq_div unat_div)
  have b: "unat (ucast (drop_bit 8 c) :: byte) = unat (drop_bit 8 c) mod 256"
    by (simp only: unsigned_ucast_eq take_bit_eq_mod) simp
  have hi: "unat (take_bit 3 (ucast (drop_bit 8 c) :: byte)) = unat c div 256"
    unfolding unat_take_bit_3 b a using u by simp
  have "unat (ucast (take_bit 8 c) :: byte) = take_bit 8 (take_bit 8 (unat c))"
    by (simp only: unsigned_take_bit_eq unsigned_ucast_eq) simp
  then have lo: "unat (ucast (c AND 0xFF) :: byte) = unat c mod 256"
    unfolding m by (simp add: take_bit_eq_mod flip: take_bit_eq_mask)
  show ?thesis unfolding hi lo by simp
qed

lemma headerBuf_shape:
  "\<exists>b0 rest. headerBuf cnt wide =
      (if wide then b0 OR 0x08 else b0) # ucast (min cnt 0x07FF AND 0xFF) # rest
      \<and> b0 = ucast (drop_bit 8 (min cnt 0x07FF))
      \<and> rest = (if cnt \<ge> 0x0FFF
                 then PutUVarInt (unat cnt) @ (if odd (length (PutUVarInt (unat cnt))) then [0] else [])
                 else [])"
  by (simp add: headerBuf_def Let_def)

text \<open>
  Claim C3, as stated, fails: for a count of 258 = 0x0102 the header is 0x61 0x02, the
  high bits of the count in the first byte and its least significant byte second.
\<close>

theorem header_count_little_endian_counterexample:
  "addTag kArrayTag (headerBuf 258 False) = [0x61, 0x02]
   \<and> readLE16 (addTag kArrayTag (headerBuf 258 False)) mod 2048 \<noteq> 258
   \<and> readBE16 (addTag kArrayTag (headerBuf 258 False)) mod 2048 = 258"
  by (simp add: headerBuf_def addTag_def kArrayTag_def readLE16_def readBE16_def)

text \<open>
  Claim C3, amended. The count field of the 2-byte header is laid out most significant
  byte first: read as a big-endian 16-bit integer, the low 11 bits of the header are the
  declared count, capped at 0x07FF, for every tag and both widths.
\<close>

theorem header_count_big_endian:
  "readBE16 (addTag tag (headerBuf cnt wide)) mod 2048 = unat (min cnt 0x07FF)"
proof -
  let ?c = "min cnt 0x07FF"
  obtain rest where h: "headerBuf cnt wide =
      (if wide then ucast (drop_bit 8 ?c) OR 0x08 else ucast (drop_bit 8 ?c))
        # ucast (?c AND 0xFF) # rest"
    using headerBuf_shape [of cnt wide] by blast
  let ?b0 = "(if wide then ucast (drop_bit 8 ?c) OR 0x08 else ucast (drop_bit 8 ?c)) OR push_bit 4 tag :: byte"
  let ?b1 = "ucast (?c AND 0xFF) :: byte"
  have r: "readBE16 (addTag tag (headerBuf cnt wide)) = 256 * unat ?b0 + unat ?b1"
    by (simp add: h addTag_def readBE16_def)
  have "unat ?b1 < 256" using unsigned_less [of ?b1] by simp
  then have "(256 * unat ?b0 + unat ?b1) mod 2048 = 256 * (unat ?b0 mod 8) + unat ?b1"
    by (simp add: mod_mult2_eq [of _ 256 8, simplified] div_mult2_eq)
  also have "unat ?b0 mod 8 = unat (take_bit 3 ?b0)"
    by (simp only: unat_take_bit_3)
  also have "take_bit 3 ?b0 = take_bit 3 (ucast (drop_bit 8 ?c) :: byte)"
    by (rule low3_tagged)
  also have "256 * unat (take_bit 3 (ucast (drop_bit 8 ?c) :: byte)) + unat ?b1 = unat ?c"
    by (rule inlineCount_bytes) simp
  finally show ?thesis by (simp only: r)
qed

lemma header_large:
  assumes "cnt \<ge> 0x0FFF"
  shows "\<exists>pad. headerBuf cnt wide =
           [if wide then 0x0F else 0x07, 0xFF] @ PutUVarInt (unat cnt) @ pad
         \<and> (pad = [] \<or> pad = [0]) \<and> even (length (headerBuf cnt wide))"
proof -
  from assms have "min cnt 0x07FF = 0x07FF" by (simp add: min_def word_le_nat_alt)
  with assms show ?thesis by (simp add: headerBuf_def Let_def)
qed

text \<open>
  Claim C2 at the count 2048. The header of an array of 2048 elements is the two bytes
  0x07 0xFF with no count bytes after them, the same as for 2047 elements: the count is
  capped at 0x07FF, but the variable-length count is only added from 0x0FFF on. The two
  documents differ in nothing but the number of reserved slot bytes.
\<close>

theorem header_count_2048_lost:
  "headerBuf 2048 False = [0x07, 0xFF] \<and> headerBuf 2047 False = [0x07, 0xFF]
   \<and> encoder_child encoder_root kArray 2048 False (shared_root []) =
       Inr (encoder_root\<lparr>count := 0\<rparr>, arrayOf 2048,
            shared_root ([0x67, 0xFF] @ replicate 4096 0))
   \<and> encoder_child encoder_root kArray 2047 False (shared_root []) =
       Inr (encoder_root\<lparr>count := 0\<rparr>, arrayOf 2047,
            shared_root ([0x67, 0xFF] @ replicate 4094 0))"
  by (simp add: encoder_child_def writeArrayOrDict_def headerBuf_def writeValue_def encoder_root_def
      shared_root_def kArrayTag_def kDictTag_def kPointerTagFirst_def highNibbleClear_def addTag_def
      Writer_write_def Writer_reserveSpace_def finishValue_def arrayOf_def)

section \<open>Strings that are already in the table\<close>

lemmas tag_defs = kShortIntTag_def kIntTag_def kFloatTag_def kSpecialTag_def kStringTag_def
  kBinaryTag_def kArrayTag_def kDictTag_def kPointerTagFirst_def

lemmas write_defs = writeValue_def placeInParent_def slotPtr_def advanceSlot_def finishValue_def
  makePointer_def cdiv2_def tagPointer_def enc16_def enc32_def highNibbleClear_def addTag_def
  Writer_write_def Writer_rewrite_def Writer_reserveSpace_def

lemma makePointer_length:
  assumes "makePointer off e = Inr (Some ptr)"
  shows "length ptr = width e"
  using assms
  by (auto simp: makePointer_def Let_def tagPointer_def enc16_def enc32_def split: if_splits)

lemma writeString_hit:
  assumes "parent e" "count e \<noteq> 0" "\<not> blockedOnKey e"
    and "width e \<le> length s" "length s \<le> kMaxSharedStringSize"
    and "strings sh s = Some off" "makePointer off e = Inr (Some ptr)"
    and "slotPtr e = Some p" "p + width e \<le> length (out sh)"
  shows "writeString kMaxSharedStringSize s e sh =
           Inr (finishValue (advanceSlot e),
                sh\<lparr>out := take p (out sh) @ ptr @ drop (p + width e) (out sh)\<rparr>)"
proof -
  have l: "length ptr = width e" using assms(7) by (rule makePointer_length)
  have "writeValue kPointerTagFirst ptr True e sh =
          Inr (Some p, finishValue (advanceSlot e),
               sh\<lparr>out := take p (out sh) @ ptr @ drop (p + width e) (out sh)\<rparr>)"
    using writeValue_inline [of e kPointerTagFirst ptr p sh] assms l by simp
  with assms show ?thesis
    by (simp add: writeString_def writePointerTo_def)
qed

lemma writeString_hit_out_of_range:
  assumes "width e \<le> length s" "length s \<le> kMaxSharedStringSize"
    and "strings sh s = Some off" "makePointer off e = Inr None"
  shows "writeString kMaxSharedStringSize s e sh =
           Inr (e, sh\<lparr>strings := (strings sh)(s \<mapsto> length (out sh))\<rparr>)"
  using assms by (simp add: writeString_def writePointerTo_def)

lemma length_bigData [simp]: "length bigData = 32768"
  by (simp add: bigData_def)

lemma PutUVarInt_32768: "PutUVarInt 32768 = [0x80, 0x80, 0x02]"
  by (simp add: PutUVarInt.simps)

lemma headerBuf_3_wide: "headerBuf 3 True = [0x08, 3]"
  by (simp add: headerBuf_def)

lemma wideArr_built:
  "encoder_child encoder_root kArray 3 True (shared_root []) =
     Inr (encoder_root\<lparr>count := 0\<rparr>, wideArr, wideDoc)"
  by (simp add: encoder_child_def writeArrayOrDict_def headerBuf_3_wide write_defs tag_defs
      encoder_root_def shared_root_def wideArr_def wideDoc_def replicate_numeral)

lemma wideArr_hello: "writeString 100 hello wideArr wideDoc = Inr (wideArr1, wideDoc1)"
  by (simp add: writeString_def writeData_def dataHeader_def write_defs tag_defs Let_def
      wideArr_def wideDoc_def wideArr1_def wideDoc1_def hello_def)
    (simp add: numeral_eq_Suc)

lemma wideArr_bigData: "writeBinary bigData wideArr1 wideDoc1 = Inr (wideArr2, wideDoc2)"
  by (simp add: writeBinary_def writeData_def dataHeader_def PutUVarInt_32768 write_defs tag_defs
      Let_def wideArr_def wideArr1_def wideDoc1_def wideArr2_def wideDoc2_def)

lemma farArr_built:
  "encoder_child wideArr2 kArray 1 False wideDoc2 =
     Inr (wideArr3, farArr, farArrDoc)"
  by (simp add: encoder_child_def writeArrayOrDict_def headerBuf_1 write_defs tag_defs Let_def
      wideArr_def wideArr2_def wideArr3_def wideDoc2_def farArr_def farArrDoc_def farDocPrefix_def
      replicate_numeral)

lemma farDict_built:
  "encoder_child wideArr2 kDict 1 False wideDoc2 =
     Inr (wideArr3, farDict, farDictDoc)"
  by (simp add: encoder_child_def writeArrayOrDict_def headerBuf_1 write_defs tag_defs Let_def
      wideArr_def wideArr2_def wideArr3_def wideDoc2_def farDict_def farDictDoc_def farDocPrefix_def
      replicate_numeral)

lemma length_farDocPrefix [simp]: "length farDocPrefix = 32792"
  by (simp add: farDocPrefix_def)

text \<open>
  Claim C1 on the document \<open>farArrDoc\<close>. "hello" is in the table at offset 14 and is
  eligible in the narrow array \<open>farArr\<close>, whose slot is at offset 32794, so that
  \<^verbatim>\<open>makePointer\<close> returns \<^verbatim>\<open>false\<close>. \<^verbatim>\<open>writeString\<close> then returns normally with the
  output unchanged: no second instance of the string is written, the slot is not filled
  and the count stays 1, so that \<^verbatim>\<open>end\<close> raises. The table now maps "hello" to 32796,
  the length of the output, where nothing is written.
\<close>

theorem writeString_fallback_writes_nothing:
  "encoder_child encoder_root kArray 3 True (shared_root []) =
     Inr (encoder_root\<lparr>count := 0\<rparr>, wideArr, wideDoc)
   \<and> writeString 100 hello wideArr wideDoc = Inr (wideArr1, wideDoc1)
   \<and> writeBinary bigData wideArr1 wideDoc1 = Inr (wideArr2, wideDoc2)
   \<and> encoder_child wideArr2 kArray 1 False wideDoc2 = Inr (wideArr3, farArr, farArrDoc)
   \<and> strings farArrDoc hello = Some 14
   \<and> makePointer 14 farArr = Inr None
   \<and> writeString 100 hello farArr farArrDoc =
        Inr (farArr, farArrDoc\<lparr>strings := [hello \<mapsto> 32796]\<rparr>)
   \<and> length (out farArrDoc) = 32796
   \<and> end_encoder farArr = Inl IncompleteCollection"
  using wideArr_built wideArr_hello wideArr_bigData farArr_built
  by (simp add: writeString_def writePointerTo_def makePointer_def cdiv2_def Let_def
      end_encoder_def farArr_def farArrDoc_def hello_def)

section \<open>Keys and values of a dictionary\<close>

lemma writeValue_blocked:
  assumes "count e \<noteq> 0" "blockedOnKey e"
  shows "writeValue tag buf c e sh = Inl KeyExpected"
  using assms by (simp add: writeValue_def)

lemma writeKey_not_expected:
  assumes "\<not> blockedOnKey e"
  shows "\<exists>v. writeKey k s e sh = Inl (ProtocolViolation v)"
  using assms by (simp add: writeKey_def)

text \<open>
  Claim C6 on the document \<open>farDictDoc\<close>. The dictionary \<open>farDict\<close> expects one entry.
  \<^verbatim>\<open>writeKey("hello")\<close> returns normally without writing (the pointer to the cached
  "hello" cannot be made) and leaves \<^verbatim>\<open>_writingKey\<close> set. The value write \<^verbatim>\<open>writeInt(5)\<close>
  that follows succeeds and puts its two bytes into the output, yet the count of remaining
  slots is 1 before and after it, and \<^verbatim>\<open>end\<close> still raises: a value successfully written
  that does not take one off the count.
\<close>

theorem value_write_leaves_count:
  "encoder_child wideArr2 kDict 1 False wideDoc2 = Inr (wideArr3, farDict, farDictDoc)
   \<and> writeKey 100 hello farDict farDictDoc = Inr (farDict1, farDictDoc1)
   \<and> writeInt 5 farDict1 farDictDoc1 = Inr (farDict2, farDictDoc2)
   \<and> out farDictDoc1 = farDocPrefix @ [0x70, 0x01, 0, 0, 0, 0]
   \<and> out farDictDoc2 = farDocPrefix @ [0x70, 0x01, 0x00, 0x05, 0, 0]
   \<and> count farDict = 1 \<and> count farDict1 = 1 \<and> count farDict2 = 1
   \<and> end_encoder farDict2 = Inl IncompleteCollection"
  using farDict_built
  by (simp add: writeKey_def writeString_def writePointerTo_def writeInt_def writeInt3_def
      write_defs tag_defs Let_def end_encoder_def
      farDict_def farDictDoc_def farDict1_def farDictDoc1_def farDict2_def farDictDoc2_def
      hello_def)

text \<open>
  On the same dictionary, still blocked on its key, the value write
  \<^verbatim>\<open>writeString("hello")\<close> returns normally as well: it never reaches the guards of
  \<^verbatim>\<open>writeValue\<close>.
\<close>

lemma blocked_value_write_returns:
  "blockedOnKey farDict \<and> count farDict \<noteq> 0
   \<and> writeString 100 hello farDict farDictDoc = Inr (farDict, farDictDoc1)"
  by (simp add: writeString_def writePointerTo_def makePointer_def cdiv2_def Let_def
      farDict_def farDictDoc_def farDictDoc1_def hello_def)

text \<open>
  Claim C7 on the document \<open>farDictDoc\<close>. The dictionary \<open>farDict\<close> expects one key and
  one value. \<^verbatim>\<open>writeKey("hello")\<close> finds "hello" in the table, cannot make the pointer
  and returns normally without writing a key and with \<^verbatim>\<open>_writingKey\<close> still set. The two
  value writes \<^verbatim>\<open>writeInt(5)\<close> and \<^verbatim>\<open>writeInt(6)\<close> that follow both succeed, the first
  into the key slot, and \<^verbatim>\<open>end\<close> accepts the dictionary: a successful sequence of a key
  and two values.
\<close>

theorem key_value_value_accepted:
  "encoder_child wideArr2 kDict 1 False wideDoc2 = Inr (wideArr3, farDict, farDictDoc)
   \<and> writeKey 100 hello farDict farDictDoc = Inr (farDict1, farDictDoc1)
   \<and> writeInt 5 farDict1 farDictDoc1 = Inr (farDict2, farDictDoc2)
   \<and> writeInt 6 farDict2 farDictDoc2 = Inr (farDict3, farDictDoc3)
   \<and> end_encoder farDict3 = Inr ()"
  using farDict_built
  by (simp add: writeKey_def writeString_def writePointerTo_def writeInt_def writeInt3_def
      write_defs tag_defs Let_def end_encoder_def
      farDict_def farDictDoc_def farDict1_def farDictDoc1_def farDict2_def farDictDoc2_def
      farDict3_def farDictDoc3_def hello_def)

section \<open>The position a shared string points to\<close>

lemma arr3_hell: "writeString 100 hell arr3 doc3 = Inr (arr3a, doc3a)"
  by (simp add: writeString_def writeData_def dataHeader_def write_defs tag_defs Let_def
      arr3_def doc3_def arr3a_def doc3a_def hell_def)
    (simp add: numeral_eq_Suc)

lemma arr3_world: "writeString 100 world arr3a doc3a = Inr (arr3b, doc3b)"
  by (simp add: writeString_def writeData_def dataHeader_def write_defs tag_defs Let_def
      arr3_def arr3a_def doc3a_def arr3b_def doc3b_def hell_def world_def)
    (simp add: numeral_eq_Suc)

text \<open>
  Claim C8 on the array \<open>arr3\<close>. After "hell" the output has odd length 13, so the
  first "world" is written behind a padding byte, at offset 14, and its own slot (at
  offset 4) points there: delta 5. The table however holds 13, the length of the output
  before the padding. The second "world" appends nothing and fills its slot (at offset 6)
  with a pointer of delta (13 - 6) / 2 = 3, that is to offset 12, which is not the
  position of the first occurrence.
\<close>

theorem second_occurrence_points_before_first:
  "writeString 100 hell arr3 doc3 = Inr (arr3a, doc3a)
   \<and> writeString 100 world arr3a doc3a = Inr (arr3b, doc3b)
   \<and> drop 14 (out doc3b) = addTag kStringTag (dataHeader (length world)) @ world
   \<and> take 2 (drop 4 (out doc3b)) = tagPointer (enc16 5)
   \<and> strings doc3b world = Some 13
   \<and> writeString 100 world arr3b doc3b = Inr (arr3c, doc3c)
   \<and> length (out doc3c) = length (out doc3b)
   \<and> take 2 (drop 6 (out doc3c)) = tagPointer (enc16 3)
   \<and> 4 + 2 * 5 = (14 :: nat) \<and> 6 + 2 * 3 \<noteq> (14 :: nat)"
  using arr3_hell arr3_world
  by (simp add: writeString_def writePointerTo_def dataHeader_def write_defs tag_defs Let_def
      arr3_def arr3b_def doc3b_def arr3c_def doc3c_def hell_def world_def)

end
